theory Spec2Isabelle
  imports Main
begin

section \<open>The screen controller of \<^verbatim>\<open>static/js/app.js\<close>\<close>

text \<open>
  The class \<^verbatim>\<open>SongamizerApp\<close> is embedded as a record of its fields together with the
  parts of the browser it reads and writes (the document, local storage, the audio element,
  the alert and console logs, and the requests it has sent). Every method becomes a function
  on that record.

  An \<^verbatim>\<open>async\<close> method is split at its \<^verbatim>\<open>await\<close>: \<open>m_call\<close> is what runs when the
  method is invoked (up to and including the \<^verbatim>\<open>fetch\<close>), \<open>m_resume\<close> is what runs when the
  awaited promise settles, and \<open>m\<close> itself is a whole run with nothing in between.
  \<^verbatim>\<open>await fetch(..)\<close> followed by \<^verbatim>\<open>await response.json()\<close> is one settlement here: the
  script touches no state between the two.

  The page (\<^verbatim>\<open>index.html\<close>) is not part of the source. The model takes every element that
  the script looks up by id to be present, so that \<^verbatim>\<open>getElementById\<close> never returns null.
\<close>

subsection \<open>JavaScript values\<close>

text \<open>
  Values as \<^verbatim>\<open>JSON.parse\<close> produces them, and \<^verbatim>\<open>undefined\<close> for a property that is
  not there. Numbers are the integers (the script only tests them for truthiness and
  displays them).
\<close>

datatype jsval =
    JUndefined
  | JNull
  | JBool bool
  | JNum int
  | JStr string
  | JArr "jsval list"
  | JObj "(string \<times> jsval) list"

text \<open>What \<^verbatim>\<open>if (v)\<close>, \<^verbatim>\<open>!v\<close>, \<^verbatim>\<open>v || w\<close> and \<^verbatim>\<open>v && w\<close> test.\<close>

fun truthy :: "jsval \<Rightarrow> bool" where
  "truthy JUndefined = False"
| "truthy JNull = False"
| "truthy (JBool b) = b"
| "truthy (JNum n) = (n \<noteq> 0)"
| "truthy (JStr s) = (s \<noteq> [])"
| "truthy (JArr xs) = True"
| "truthy (JObj kvs) = True"

text \<open>
  Property access \<^verbatim>\<open>v.k\<close> for the keys the script uses (\<^verbatim>\<open>auth_url\<close>, \<^verbatim>\<open>playlists\<close>,
  \<^verbatim>\<open>track\<close>, \<^verbatim>\<open>id\<close>, \<^verbatim>\<open>name\<close>, \<^verbatim>\<open>artist\<close>, \<^verbatim>\<open>year\<close>, \<^verbatim>\<open>stream_url\<close>, \<^verbatim>\<open>spotify_url\<close>;
  none of them is a built-in property of a string, number, boolean or array):
  \<open>None\<close> is the TypeError thrown on \<^verbatim>\<open>null\<close> and \<^verbatim>\<open>undefined\<close>.
\<close>

fun get_prop :: "jsval \<Rightarrow> string \<Rightarrow> jsval option" where
  "get_prop JUndefined k = None"
| "get_prop JNull k = None"
| "get_prop (JObj kvs) k = Some (case map_of kvs k of Some v \<Rightarrow> v | None \<Rightarrow> JUndefined)"
| "get_prop v k = Some JUndefined"

subsection \<open>Requests and their outcomes\<close>

datatype request =
    GetAuthorize
  | GetPlaylists
  | PostPlaylist string
  | DeletePlaylist string
  | GetPlayTrack jsval
  | PostReset

text \<open>A promise the script has started: a \<^verbatim>\<open>fetch\<close>, or \<^verbatim>\<open>audioPlayer.play()\<close>.\<close>

datatype async_call = Fetch request | AudioPlay

text \<open>
  A response carries \<^verbatim>\<open>response.ok\<close> and what \<^verbatim>\<open>response.json()\<close> resolves to
  (\<open>None\<close>: the body is not JSON and \<^verbatim>\<open>json()\<close> rejects). \<^verbatim>\<open>fetch\<close> rejects on a network
  error only; a non-2xx status resolves with \<open>ok = False\<close>.
\<close>

datatype response = Response (ok: bool) (json: "jsval option")

datatype outcome = Rejected | Resolved response

subsection \<open>State\<close>

datatype screen = Connect | Playlist | Game | Reveal

record app =
  currentScreen :: screen
  selectedPlaylist :: jsval
  currentTrack :: jsval
  tracksPlayed :: nat
  currentColorIndex :: nat
  activeScreen :: "screen option"
  dom :: "((string \<times> string) \<times> jsval) list"
  playlistItems :: "(jsval \<times> bool) list"
  audioPaused :: bool
  location_search :: "(string \<times> string) list"
  localStorage :: "(string \<times> string) list"
  location_href :: "jsval option"
  opened :: "jsval list"
  alerts :: "string list"
  console :: "string list"
  calls :: "async_call list"
  settled :: "nat list"

text \<open>
  \<^item> \<open>tracksPlayed\<close> is a JavaScript number holding a count; it is exact below \<open>2^53\<close>,
    and the model takes it as a natural number.
  \<^item> \<open>activeScreen\<close> is the \<^verbatim>\<open>.screen\<close> element carrying the class \<^verbatim>\<open>active\<close>;
    \<open>None\<close> until the script first calls \<^verbatim>\<open>showScreen\<close> (the page is as served).
  \<^item> \<open>dom\<close> lists the element properties the script has assigned, newest first, under
    (element id, property).
  \<^item> \<open>playlistItems\<close> are the \<^verbatim>\<open>.playlist-item\<close> elements the script has rendered, each
    with the playlist its listener closes over and whether it carries the class \<^verbatim>\<open>selected\<close>.
  \<^item> \<open>audioPaused\<close> follows the last \<^verbatim>\<open>pause()\<close> or \<^verbatim>\<open>play()\<close> the script called.
  \<^item> \<open>location_search\<close> is the query string as \<^verbatim>\<open>URLSearchParams\<close> parses it.
  \<^item> \<open>location_href\<close> is the value assigned to \<^verbatim>\<open>window.location.href\<close>, if any.
  \<^item> \<open>calls\<close> are the promises started, oldest first; \<open>settled\<close> are the positions of those
    that have settled.
\<close>

definition cardColors :: "string list" where
  "cardColors =
     [''card-color-1'', ''card-color-2'', ''card-color-3'', ''card-color-4'',
      ''card-color-5'', ''card-color-6'', ''card-color-7'', ''card-color-8'']"

subsection \<open>Browser primitives\<close>

definition setProperty :: "string \<Rightarrow> string \<Rightarrow> jsval \<Rightarrow> app \<Rightarrow> app" where
  "setProperty el p v s = s\<lparr>dom := ((el, p), v) # dom s\<rparr>"

definition getProperty :: "string \<Rightarrow> string \<Rightarrow> app \<Rightarrow> jsval option" where
  "getProperty el p s = map_of (dom s) (el, p)"

definition alert :: "string \<Rightarrow> app \<Rightarrow> app" where
  "alert msg s = s\<lparr>alerts := alerts s @ [msg]\<rparr>"

definition console_log :: "string \<Rightarrow> app \<Rightarrow> app" where
  "console_log msg s = s\<lparr>console := console s @ [msg]\<rparr>"

definition fetch :: "request \<Rightarrow> app \<Rightarrow> app" where
  "fetch req s = s\<lparr>calls := calls s @ [Fetch req]\<rparr>"

definition urlParams_get :: "string \<Rightarrow> app \<Rightarrow> string option" where
  "urlParams_get k s = map_of (location_search s) k"

definition getItem :: "string \<Rightarrow> app \<Rightarrow> string option" where
  "getItem k s = map_of (localStorage s) k"

definition setItem :: "string \<Rightarrow> string \<Rightarrow> app \<Rightarrow> app" where
  "setItem k v s = s\<lparr>localStorage := (k, v) # localStorage s\<rparr>"

text \<open>A string or \<^verbatim>\<open>null\<close>, as \<^verbatim>\<open>URLSearchParams.get\<close> and \<^verbatim>\<open>getItem\<close> return it.\<close>

definition truthy_str :: "string option \<Rightarrow> bool" where
  "truthy_str v = (case v of None \<Rightarrow> False | Some x \<Rightarrow> x \<noteq> [])"

definition to_string :: "string option \<Rightarrow> string" where
  "to_string v = (case v of None \<Rightarrow> ''null'' | Some x \<Rightarrow> x)"

subsection \<open>Methods\<close>

definition showScreen :: "screen \<Rightarrow> app \<Rightarrow> app" where
  "showScreen screenName s = s\<lparr>activeScreen := Some screenName, currentScreen := screenName\<rparr>"

definition updateTrackCounter :: "app \<Rightarrow> app" where
  "updateTrackCounter s =
     setProperty ''revealTracksPlayed'' ''textContent'' (JNum (int (tracksPlayed s)))
       (setProperty ''tracksPlayed'' ''textContent'' (JNum (int (tracksPlayed s))) s)"

definition loadPlaylists_call :: "app \<Rightarrow> app" where
  "loadPlaylists_call s = fetch GetPlaylists s"

definition checkAuthStatus :: "app \<Rightarrow> app" where
  "checkAuthStatus s =
     (let sessionId = urlParams_get ''session_id'' s in
      if truthy_str sessionId then
        showScreen Playlist (loadPlaylists_call (setItem ''spotify_session'' (to_string sessionId) s))
      else if truthy_str (getItem ''spotify_session'' s) then
        showScreen Playlist (loadPlaylists_call s)
      else showScreen Connect s)"

text \<open>\<^verbatim>\<open>init\<close>: \<^verbatim>\<open>bindEvents\<close> registers the listeners (the events of \<open>step\<close> below).\<close>

definition init :: "app \<Rightarrow> app" where
  "init s = checkAuthStatus s"

text \<open>The constructor, in a page loaded with the given query string and local storage.\<close>

definition new_SongamizerApp :: "(string \<times> string) list \<Rightarrow> (string \<times> string) list \<Rightarrow> app" where
  "new_SongamizerApp query stored =
     init \<lparr>currentScreen = Connect, selectedPlaylist = JNull, currentTrack = JNull,
           tracksPlayed = 0, currentColorIndex = 0, activeScreen = None, dom = [],
           playlistItems = [], audioPaused = True, location_search = query,
           localStorage = stored, location_href = None, opened = [], alerts = [],
           console = [], calls = [], settled = []\<rparr>"

definition connectToSpotify_call :: "app \<Rightarrow> app" where
  "connectToSpotify_call s = fetch GetAuthorize s"

definition connectToSpotify_catch :: "app \<Rightarrow> app" where
  "connectToSpotify_catch s =
     alert ''Failed to connect to Spotify. Please try again.''
       (console_log ''Error connecting to Spotify:'' s)"

definition connectToSpotify_resume :: "outcome \<Rightarrow> app \<Rightarrow> app" where
  "connectToSpotify_resume r s =
     (case r of
        Rejected \<Rightarrow> connectToSpotify_catch s
      | Resolved resp \<Rightarrow>
          (case json resp of
             None \<Rightarrow> connectToSpotify_catch s
           | Some data \<Rightarrow>
               (case get_prop data ''auth_url'' of
                  None \<Rightarrow> connectToSpotify_catch s
                | Some auth_url \<Rightarrow>
                    if truthy auth_url then s\<lparr>location_href := Some auth_url\<rparr> else s)))"

definition connectToSpotify :: "outcome \<Rightarrow> app \<Rightarrow> app" where
  "connectToSpotify r s = connectToSpotify_resume r (connectToSpotify_call s)"

text \<open>
  \<^verbatim>\<open>renderPlaylists\<close>: the body of the \<^verbatim>\<open>forEach\<close> callback throws on a \<^verbatim>\<open>null\<close> item
  (at \<^verbatim>\<open>playlist.name\<close>), leaving the items appended so far; \<^verbatim>\<open>forEach\<close> itself is not
  a function on anything but an array.
\<close>

datatype completion = Returned | Threw

fun forEach_playlist :: "jsval list \<Rightarrow> app \<Rightarrow> completion \<times> app" where
  "forEach_playlist [] s = (Returned, s)"
| "forEach_playlist (playlist # rest) s =
     (if get_prop playlist ''name'' = None \<or> get_prop playlist ''id'' = None then (Threw, s)
      else forEach_playlist rest (s\<lparr>playlistItems := playlistItems s @ [(playlist, False)]\<rparr>))"

definition renderPlaylists :: "jsval \<Rightarrow> app \<Rightarrow> completion \<times> app" where
  "renderPlaylists playlists s =
     (let s1 = s\<lparr>playlistItems := []\<rparr> in
      case playlists of JArr ps \<Rightarrow> forEach_playlist ps s1 | _ \<Rightarrow> (Threw, s1))"

definition loadPlaylists_catch :: "app \<Rightarrow> app" where
  "loadPlaylists_catch s = console_log ''Error loading playlists:'' s"

definition loadPlaylists_resume :: "outcome \<Rightarrow> app \<Rightarrow> app" where
  "loadPlaylists_resume r s =
     (case r of
        Rejected \<Rightarrow> loadPlaylists_catch s
      | Resolved resp \<Rightarrow>
          (case json resp of
             None \<Rightarrow> loadPlaylists_catch s
           | Some data \<Rightarrow>
               (case get_prop data ''playlists'' of
                  None \<Rightarrow> loadPlaylists_catch s
                | Some playlists \<Rightarrow>
                    if truthy playlists then
                      (case renderPlaylists playlists s of
                         (Returned, s1) \<Rightarrow> s1
                       | (Threw, s1) \<Rightarrow> loadPlaylists_catch s1)
                    else s)))"

text \<open>
  \<^verbatim>\<open>selectPlaylist(playlist, element)\<close>, the element being the rendered item at position
  \<open>element\<close>: every item loses the class \<^verbatim>\<open>selected\<close>, then this one gets it.
\<close>

definition selectPlaylist :: "jsval \<Rightarrow> nat \<Rightarrow> app \<Rightarrow> app" where
  "selectPlaylist playlist element s =
     setProperty ''startPlayingBtn'' ''disabled'' (JBool False)
       (s\<lparr>playlistItems :=
            map (\<lambda>(i, item). (fst item, i = element)) (enumerate 0 (playlistItems s)),
          selectedPlaylist := playlist\<rparr>)"

text \<open>\<^verbatim>\<open>addPlaylist\<close>, with what \<^verbatim>\<open>prompt\<close> returned (\<open>None\<close>: cancelled).\<close>

definition addPlaylist_call :: "string option \<Rightarrow> app \<Rightarrow> app" where
  "addPlaylist_call url s =
     (if truthy_str url then fetch (PostPlaylist (to_string url)) s else s)"

definition addPlaylist_resume :: "outcome \<Rightarrow> app \<Rightarrow> app" where
  "addPlaylist_resume r s =
     (case r of
        Rejected \<Rightarrow>
          alert ''Failed to add playlist. Please try again.''
            (console_log ''Error adding playlist:'' s)
      | Resolved resp \<Rightarrow>
          if ok resp then loadPlaylists_call s
          else alert ''Failed to add playlist. Please check the URL and try again.'' s)"

definition removePlaylist_call :: "string \<Rightarrow> app \<Rightarrow> app" where
  "removePlaylist_call playlistId s = fetch (DeletePlaylist playlistId) s"

definition removePlaylist_resume :: "outcome \<Rightarrow> app \<Rightarrow> app" where
  "removePlaylist_resume r s =
     (case r of
        Rejected \<Rightarrow> console_log ''Error removing playlist:'' s
      | Resolved resp \<Rightarrow> if ok resp then loadPlaylists_call s else s)"

definition playRandomTrack_catch :: "app \<Rightarrow> app" where
  "playRandomTrack_catch s =
     alert ''Failed to load track. Please try again.'' (console_log ''Error playing track:'' s)"

text \<open>
  The request URL is built from \<^verbatim>\<open>this.selectedPlaylist.id\<close> before the \<^verbatim>\<open>fetch\<close>, inside
  the \<^verbatim>\<open>try\<close>: with no playlist selected the TypeError is caught and nothing is sent.
\<close>

definition playRandomTrack_call :: "app \<Rightarrow> app" where
  "playRandomTrack_call s =
     (case get_prop (selectedPlaylist s) ''id'' of
        None \<Rightarrow> playRandomTrack_catch s
      | Some playlistId \<Rightarrow> fetch (GetPlayTrack playlistId) s)"

definition audioPlayer_play :: "app \<Rightarrow> app" where
  "audioPlayer_play s = s\<lparr>audioPaused := False, calls := calls s @ [AudioPlay]\<rparr>"

definition audioPlayer_pause :: "app \<Rightarrow> app" where
  "audioPlayer_pause s = s\<lparr>audioPaused := True\<rparr>"

definition audioPlay_resume :: "outcome \<Rightarrow> app \<Rightarrow> app" where
  "audioPlay_resume r s =
     (case r of Rejected \<Rightarrow> console_log ''Audio autoplay prevented:'' s | Resolved resp \<Rightarrow> s)"

definition playRandomTrack_resume :: "outcome \<Rightarrow> app \<Rightarrow> app" where
  "playRandomTrack_resume r s =
     (case r of
        Rejected \<Rightarrow> playRandomTrack_catch s
      | Resolved resp \<Rightarrow>
          (case json resp of
             None \<Rightarrow> playRandomTrack_catch s
           | Some data \<Rightarrow>
               (case get_prop data ''track'' of
                  None \<Rightarrow> playRandomTrack_catch s
                | Some track \<Rightarrow>
                    if truthy track then
                      (let s1 = updateTrackCounter
                                  (s\<lparr>currentTrack := track, tracksPlayed := tracksPlayed s + 1\<rparr>)
                       in case get_prop track ''stream_url'' of
                            None \<Rightarrow> playRandomTrack_catch s1
                          | Some stream_url \<Rightarrow>
                              if truthy stream_url then
                                audioPlayer_play (setProperty ''audioPlayer'' ''src'' stream_url s1)
                              else s1)
                    else s)))"

definition playRandomTrack :: "outcome \<Rightarrow> app \<Rightarrow> app" where
  "playRandomTrack r s =
     (case get_prop (selectedPlaylist s) ''id'' of
        None \<Rightarrow> playRandomTrack_call s
      | Some playlistId \<Rightarrow> playRandomTrack_resume r (playRandomTrack_call s))"

text \<open>\<^verbatim>\<open>startGame\<close> does not await \<^verbatim>\<open>playRandomTrack\<close>: it returns once the request is sent.\<close>

definition startGame :: "app \<Rightarrow> app" where
  "startGame s =
     (if \<not> truthy (selectedPlaylist s) then alert ''Please select a playlist first.'' s
      else playRandomTrack_call (showScreen Game s))"

definition nth_opt :: "'a list \<Rightarrow> nat \<Rightarrow> 'a option" where
  "nth_opt xs i = (if i < length xs then Some (xs ! i) else None)"

text \<open>\<^verbatim>\<open>getNextCardColor\<close> returns the colour (\<open>None\<close>: \<^verbatim>\<open>undefined\<close>) and advances the index.\<close>

definition getNextCardColor :: "app \<Rightarrow> string option \<times> app" where
  "getNextCardColor s =
     (let color = nth_opt cardColors (currentColorIndex s) in
      (color, s\<lparr>currentColorIndex := (currentColorIndex s + 1) mod length cardColors\<rparr>))"

text \<open>
  \<^verbatim>\<open>revealCard\<close> is not inside a \<^verbatim>\<open>try\<close>; past its guard the track is truthy, so the
  property reads cannot throw (the last branch is the uncaught TypeError at the first read).
\<close>

definition revealCard :: "app \<Rightarrow> app" where
  "revealCard s =
     (if \<not> truthy (currentTrack s) then alert ''No track loaded. Please try again.'' s
      else
        (case (get_prop (currentTrack s) ''artist'', get_prop (currentTrack s) ''year'',
               get_prop (currentTrack s) ''name'') of
           (Some artist, Some year, Some name) \<Rightarrow>
             (let s1 = setProperty ''artistName'' ''textContent'' artist s;
                  s2 = setProperty ''releaseYear'' ''textContent''
                         (if truthy year then year else JStr ''Unknown'') s1;
                  s3 = setProperty ''songName'' ''textContent'' name s2;
                  s4 = setProperty ''revealTracksPlayed'' ''textContent''
                         (JNum (int (tracksPlayed s3))) s3;
                  (color, s5) = getNextCardColor s4;
                  s6 = setProperty ''revealCard'' ''className''
                         (JStr (''reveal-card '' @
                            (case color of Some c \<Rightarrow> c | None \<Rightarrow> ''undefined''))) s5
              in showScreen Reveal s6)
         | _ \<Rightarrow> s))"

definition playNextSong :: "app \<Rightarrow> app" where
  "playNextSong s = playRandomTrack_call (showScreen Game s)"

definition openInSpotify :: "app \<Rightarrow> app" where
  "openInSpotify s =
     (if truthy (currentTrack s) then
        (case get_prop (currentTrack s) ''spotify_url'' of
           None \<Rightarrow> s
         | Some spotify_url \<Rightarrow>
             if truthy spotify_url then s\<lparr>opened := opened s @ [spotify_url]\<rparr> else s)
      else s)"

definition resetGame_call :: "app \<Rightarrow> app" where
  "resetGame_call s = fetch PostReset s"

text \<open>
  The local reset follows the \<^verbatim>\<open>await\<close> inside the \<^verbatim>\<open>try\<close>: a rejected \<^verbatim>\<open>fetch\<close> goes
  to the \<^verbatim>\<open>catch\<close>, which logs.
\<close>

definition resetGame_resume :: "outcome \<Rightarrow> app \<Rightarrow> app" where
  "resetGame_resume r s =
     (case r of
        Rejected \<Rightarrow> console_log ''Error resetting game:'' s
      | Resolved resp \<Rightarrow>
          showScreen Playlist
            (setProperty ''audioPlayer'' ''src'' (JStr [])
               (audioPlayer_pause
                  (updateTrackCounter (s\<lparr>tracksPlayed := 0, currentTrack := JNull\<rparr>)))))"

definition resetGame :: "outcome \<Rightarrow> app \<Rightarrow> app" where
  "resetGame r s = resetGame_resume r (resetGame_call s)"

subsection \<open>Events\<close>

text \<open>
  What can happen to a running controller: a click that \<^verbatim>\<open>bindEvents\<close> or
  \<^verbatim>\<open>renderPlaylists\<close> has bound a listener to, or the settlement of a promise the script is
  waiting for. \<open>ClickAddPlaylist\<close> carries what the user answers to the prompt,
  \<open>ClickPlaylistItem\<close> the position of the item, \<open>ClickRemove\<close> the position of the item,
  whether the click hit the icon inside the button (the item's own listener then runs
  too, since the icon does not carry the class \<^verbatim>\<open>playlist-remove\<close>), and the argument
  with which the button's handler calls \<^verbatim>\<open>removePlaylist\<close>.

  That handler is the inline attribute \<^verbatim>\<open>onclick="app.removePlaylist('${playlist.id}')"\<close>:
  the id is pasted into markup that the browser parses as HTML and then as JavaScript, so
  what reaches \<^verbatim>\<open>removePlaylist\<close> is the string literal as the browser reads it back (the
  id itself when it has no character special to either), and nothing at all when the
  attribute is not a well-formed call (\<open>None\<close>). The event carries it; the model does not
  compute it from the id.
\<close>

datatype event =
    ClickConnect
  | ClickAddPlaylist "string option"
  | ClickStart
  | ClickReveal
  | ClickPlayNext
  | ClickSpotify
  | ClickReset
  | ClickHeaderPlay
  | ClickPlaylistItem nat
  | ClickRemove nat bool "string option"
  | Settle nat outcome

text \<open>The continuation that waits for a promise.\<close>

fun resume :: "async_call \<Rightarrow> outcome \<Rightarrow> app \<Rightarrow> app" where
  "resume (Fetch GetAuthorize) r s = connectToSpotify_resume r s"
| "resume (Fetch GetPlaylists) r s = loadPlaylists_resume r s"
| "resume (Fetch (PostPlaylist url)) r s = addPlaylist_resume r s"
| "resume (Fetch (DeletePlaylist playlistId)) r s = removePlaylist_resume r s"
| "resume (Fetch (GetPlayTrack playlistId)) r s = playRandomTrack_resume r s"
| "resume (Fetch PostReset) r s = resetGame_resume r s"
| "resume AudioPlay r s = audioPlay_resume r s"

definition item_click :: "nat \<Rightarrow> app \<Rightarrow> app" where
  "item_click i s =
     (case nth_opt (playlistItems s) i of
        None \<Rightarrow> s
      | Some item \<Rightarrow> selectPlaylist (fst item) i s)"

definition remove_click :: "nat \<Rightarrow> bool \<Rightarrow> string option \<Rightarrow> app \<Rightarrow> app" where
  "remove_click i on_icon argument s =
     (case nth_opt (playlistItems s) i of
        None \<Rightarrow> s
      | Some item \<Rightarrow>
          (let s1 = (case argument of
                       None \<Rightarrow> s
                     | Some playlistId \<Rightarrow> removePlaylist_call playlistId s)
           in if on_icon then selectPlaylist (fst item) i s1 else s1))"

fun step :: "event \<Rightarrow> app \<Rightarrow> app" where
  "step ClickConnect s = connectToSpotify_call s"
| "step (ClickAddPlaylist url) s = addPlaylist_call url s"
| "step ClickStart s = startGame s"
| "step ClickReveal s = revealCard s"
| "step ClickPlayNext s = playNextSong s"
| "step ClickSpotify s = openInSpotify s"
| "step ClickReset s = resetGame_call s"
| "step ClickHeaderPlay s = showScreen Playlist s"
| "step (ClickPlaylistItem i) s = item_click i s"
| "step (ClickRemove i on_icon argument) s = remove_click i on_icon argument s"
| "step (Settle i r) s =
     (case nth_opt (calls s) i of
        None \<Rightarrow> s
      | Some c \<Rightarrow> if i \<in> set (settled s) then s else resume c r (s\<lparr>settled := i # settled s\<rparr>))"

text \<open>
  Where an event can occur. A screen without the class \<^verbatim>\<open>active\<close> is hidden
  (\<^verbatim>\<open>showScreen\<close>: "Hide all screens", "Show target screen"), and \<^verbatim>\<open>bindEvents\<close> groups
  the buttons by the screen they are on: connect on the connect screen; add playlist and
  start on the playlist screen, with the playlist list; reveal on the game screen; play next
  and open in Spotify on the reveal screen. The reset buttons and the header button are
  taken to be available everywhere. A promise settles once.
\<close>

fun enabled :: "event \<Rightarrow> app \<Rightarrow> bool" where
  "enabled ClickConnect s = (currentScreen s = Connect)"
| "enabled (ClickAddPlaylist url) s = (currentScreen s = Playlist)"
| "enabled ClickStart s = (currentScreen s = Playlist)"
| "enabled ClickReveal s = (currentScreen s = Game)"
| "enabled ClickPlayNext s = (currentScreen s = Reveal)"
| "enabled ClickSpotify s = (currentScreen s = Reveal)"
| "enabled ClickReset s = True"
| "enabled ClickHeaderPlay s = True"
| "enabled (ClickPlaylistItem i) s = (currentScreen s = Playlist \<and> i < length (playlistItems s))"
| "enabled (ClickRemove i on_icon argument) s =
     (currentScreen s = Playlist \<and> i < length (playlistItems s))"
| "enabled (Settle i r) s = (i < length (calls s) \<and> i \<notin> set (settled s))"

text \<open>The states a session can be in: the constructor's, and what enabled events lead to.\<close>

inductive reachable :: "app \<Rightarrow> bool" where
  start: "reachable (new_SongamizerApp query stored)"
| after: "reachable s \<Longrightarrow> enabled e s \<Longrightarrow> reachable (step e s)"

text \<open>Running a list of events, oldest first.\<close>

fun run :: "event list \<Rightarrow> app \<Rightarrow> app" where
  "run [] s = s"
| "run (e # es) s = run es (step e s)"

subsection \<open>A session used in the examples\<close>

text \<open>
  The page is opened with \<^verbatim>\<open>?session_id=abc123\<close>, the backend lists one playlist, the user
  selects it and starts the game, and the backend answers with a track that has a stream
  URL and no year.
\<close>

definition one_playlist :: jsval where
  "one_playlist = JObj [(''id'', JStr ''p1''), (''name'', JStr ''Mix'')]"

definition track_XY :: jsval where
  "track_XY =
     JObj [(''name'', JStr ''X''), (''artist'', JStr ''Y''),
           (''stream_url'', JStr ''https://cdn.example/x.mp3'')]"

definition session_events :: "event list" where
  "session_events =
     [Settle 0 (Resolved (Response True (Some (JObj [(''playlists'', JArr [one_playlist])])))),
      ClickPlaylistItem 0,
      ClickStart,
      Settle 1 (Resolved (Response True (Some (JObj [(''track'', track_XY)]))))]"

definition playing :: app where
  "playing = run session_events (new_SongamizerApp [(''session_id'', ''abc123'')] [])"

subsection \<open>Predicates used in the statements\<close>

text \<open>
  The \<^verbatim>\<open>try\<close> block of a method that reads \<^verbatim>\<open>data.k\<close> from the response throws before
  it gets past that read: the \<^verbatim>\<open>fetch\<close> was rejected, the body is not JSON, or the body
  is \<^verbatim>\<open>null\<close>.
\<close>

definition throws_reading :: "string \<Rightarrow> outcome \<Rightarrow> bool" where
  "throws_reading k r =
     (case r of
        Rejected \<Rightarrow> True
      | Resolved resp \<Rightarrow>
          (case json resp of None \<Rightarrow> True | Some data \<Rightarrow> get_prop data k = None))"

text \<open>What \<^verbatim>\<open>data.k\<close> is when the read succeeds (\<^verbatim>\<open>undefined\<close> otherwise).\<close>

definition read_field :: "string \<Rightarrow> outcome \<Rightarrow> jsval" where
  "read_field k r =
     (case r of
        Rejected \<Rightarrow> JUndefined
      | Resolved resp \<Rightarrow>
          (case json resp of
             None \<Rightarrow> JUndefined
           | Some data \<Rightarrow> (case get_prop data k of None \<Rightarrow> JUndefined | Some v \<Rightarrow> v)))"

text \<open>The event is the settlement of a reset request.\<close>

definition settles_reset :: "event \<Rightarrow> app \<Rightarrow> bool" where
  "settles_reset e s =
     (case e of Settle i r \<Rightarrow> nth_opt (calls s) i = Some (Fetch PostReset) | _ \<Rightarrow> False)"

text \<open>The invariant of the data model: on the game and reveal screens a playlist is selected.\<close>

definition playlist_selected_on_game :: "app \<Rightarrow> bool" where
  "playlist_selected_on_game s =
     (currentScreen s = Game \<or> currentScreen s = Reveal \<longrightarrow> selectedPlaylist s \<noteq> JNull)"

text \<open>One call of the colour-advance function, for its effect on the controller.\<close>

definition advance_color :: "app \<Rightarrow> app" where
  "advance_color s = snd (getNextCardColor s)"

text \<open>Every event of the list is enabled when its turn comes.\<close>

fun all_enabled :: "event list \<Rightarrow> app \<Rightarrow> bool" where
  "all_enabled [] s = True"
| "all_enabled (e # es) s = (enabled e s \<and> all_enabled es (step e s))"

text \<open>
  A wider notion of session, for the invariant of the data model: of all the buttons only
  play next is taken to be confined to its screen (the reveal screen); every other click may
  come on any screen.
\<close>

fun play_next_on_reveal :: "event \<Rightarrow> app \<Rightarrow> bool" where
  "play_next_on_reveal ClickPlayNext s = (currentScreen s = Reveal)"
| "play_next_on_reveal e s = True"

inductive reachable_wide :: "app \<Rightarrow> bool" where
  wide_start: "reachable_wide (new_SongamizerApp query stored)"
| wide_after: "reachable_wide s \<Longrightarrow> play_next_on_reveal e s \<Longrightarrow> reachable_wide (step e s)"

text \<open>
  What a session keeps true of the selection: a playlist has been selected, or else the
  controller is on neither the game nor the reveal screen, holds no track and has never
  requested one; and no rendered item is \<^verbatim>\<open>null\<close>.
\<close>

fun is_track_request :: "async_call \<Rightarrow> bool" where
  "is_track_request (Fetch (GetPlayTrack playlistId)) = True"
| "is_track_request c = False"

definition selection_history :: "app \<Rightarrow> bool" where
  "selection_history s =
     ((selectedPlaylist s \<noteq> JNull \<or>
       (currentScreen s \<noteq> Game \<and> currentScreen s \<noteq> Reveal \<and> \<not> truthy (currentTrack s) \<and>
        \<not> list_ex is_track_request (calls s))) \<and>
      list_all (\<lambda>item. fst item \<noteq> JNull) (playlistItems s))"

section \<open>Properties\<close>

subsection \<open>The example session, and what the continuations leave alone\<close>

lemmas prim_defs = setProperty_def getProperty_def alert_def console_log_def fetch_def
  urlParams_get_def getItem_def setItem_def truthy_str_def to_string_def showScreen_def
  updateTrackCounter_def audioPlayer_play_def audioPlayer_pause_def

lemma playing_eq: "playing =
  \<lparr>currentScreen = Game, selectedPlaylist = one_playlist, currentTrack = track_XY,
   tracksPlayed = 1, currentColorIndex = 0, activeScreen = Some Game,
   dom = [((''audioPlayer'', ''src''), JStr ''https://cdn.example/x.mp3''),
          ((''revealTracksPlayed'', ''textContent''), JNum 1),
          ((''tracksPlayed'', ''textContent''), JNum 1),
          ((''startPlayingBtn'', ''disabled''), JBool False)],
   playlistItems = [(one_playlist, True)], audioPaused = False,
   location_search = [(''session_id'', ''abc123'')],
   localStorage = [(''spotify_session'', ''abc123'')], location_href = None, opened = [],
   alerts = [], console = [],
   calls = [Fetch GetPlaylists, Fetch (GetPlayTrack (JStr ''p1'')), AudioPlay],
   settled = [1, 0]\<rparr>"
  by code_simp

lemma reachable_run: "reachable s \<Longrightarrow> all_enabled es s \<Longrightarrow> reachable (run es s)"
  by (induction es arbitrary: s) (auto intro: reachable.after)

lemma reachable_playing: "reachable playing"
  unfolding playing_def
proof (rule reachable_run)
  show "reachable (new_SongamizerApp [(''session_id'', ''abc123'')] [])" by (rule reachable.start)
  show "all_enabled session_events (new_SongamizerApp [(''session_id'', ''abc123'')] [])" by code_simp
qed

lemma forEach_playlist_frame: "\<exists>items. snd (forEach_playlist ps s) = s\<lparr>playlistItems := items\<rparr>"
proof (induction ps arbitrary: s)
  case Nil
  have "s = s\<lparr>playlistItems := playlistItems s\<rparr>" by simp
  then show ?case by (metis forEach_playlist.simps(1) snd_conv)
next
  case (Cons p ps)
  show ?case
  proof (cases "get_prop p ''name'' = None \<or> get_prop p ''id'' = None")
    case True
    have "s = s\<lparr>playlistItems := playlistItems s\<rparr>" by simp
    with True show ?thesis by (metis forEach_playlist.simps(2) snd_conv)
  next
    case False
    obtain items where "snd (forEach_playlist ps (s\<lparr>playlistItems := playlistItems s @ [(p, False)]\<rparr>))
       = s\<lparr>playlistItems := playlistItems s @ [(p, False)]\<rparr>\<lparr>playlistItems := items\<rparr>"
      using Cons.IH by blast
    with False show ?thesis by (intro exI[of _ items]) auto
  qed
qed

lemma renderPlaylists_frame: "\<exists>items. snd (renderPlaylists v s) = s\<lparr>playlistItems := items\<rparr>"
proof (cases v)
  case (JArr ps)
  obtain items where "snd (forEach_playlist ps (s\<lparr>playlistItems := []\<rparr>)) = s\<lparr>playlistItems := []\<rparr>\<lparr>playlistItems := items\<rparr>"
    using forEach_playlist_frame by blast
  with JArr show ?thesis by (intro exI[of _ items]) (simp add: renderPlaylists_def)
qed (auto simp: renderPlaylists_def intro: exI[of _ "[]"])

lemma loadPlaylists_resume_frame:
  "\<exists>items logs. loadPlaylists_resume r s = s\<lparr>playlistItems := items, console := logs\<rparr>"
proof -
  have keep: "\<exists>items logs. s = s\<lparr>playlistItems := items, console := logs\<rparr>"
    by (intro exI[of _ "playlistItems s"] exI[of _ "console s"]) simp
  have log: "\<exists>items logs. loadPlaylists_catch s = s\<lparr>playlistItems := items, console := logs\<rparr>"
    by (intro exI[of _ "playlistItems s"] exI[of _ "console s @ [''Error loading playlists:'']"])
       (simp add: loadPlaylists_catch_def console_log_def)
  have render: "\<exists>items logs. (case renderPlaylists v s of (Returned, s1) \<Rightarrow> s1
                      | (Threw, s1) \<Rightarrow> loadPlaylists_catch s1) = s\<lparr>playlistItems := items, console := logs\<rparr>" for v
  proof -
    obtain items where i: "snd (renderPlaylists v s) = s\<lparr>playlistItems := items\<rparr>"
      using renderPlaylists_frame by blast
    obtain c s1 where p: "renderPlaylists v s = (c, s1)" by (cases "renderPlaylists v s")
    with i have s1: "s1 = s\<lparr>playlistItems := items\<rparr>" by simp
    show ?thesis
    proof (cases c)
      case Returned
      with p s1 show ?thesis
        by (intro exI[of _ items] exI[of _ "console s"]) simp
    next
      case Threw
      with p s1 show ?thesis
        by (intro exI[of _ items] exI[of _ "console s @ [''Error loading playlists:'']"])
           (simp add: loadPlaylists_catch_def console_log_def)
    qed
  qed
  show ?thesis
    unfolding loadPlaylists_resume_def
    using keep log render
    by (simp split: outcome.split option.split)
qed


lemma resume_selectedPlaylist: "selectedPlaylist (resume c r s) = selectedPlaylist s"
proof -
  obtain items logs where "loadPlaylists_resume r s = s\<lparr>playlistItems := items, console := logs\<rparr>"
    using loadPlaylists_resume_frame by blast
  then have lp: "selectedPlaylist (loadPlaylists_resume r s) = selectedPlaylist s" by simp
  show ?thesis
  proof (cases c)
    case AudioPlay
    then show ?thesis by (simp add: audioPlay_resume_def console_log_def split: outcome.split)
  next
    case (Fetch req)
    then show ?thesis using lp
      by (cases req)
         (simp_all add: connectToSpotify_resume_def connectToSpotify_catch_def addPlaylist_resume_def
            removePlaylist_resume_def loadPlaylists_call_def playRandomTrack_resume_def
            playRandomTrack_catch_def resetGame_resume_def prim_defs Let_def
            split: outcome.split option.split)
  qed
qed

lemma resume_currentScreen:
  "currentScreen (resume c r s) = currentScreen s \<or> currentScreen (resume c r s) = Playlist"
proof -
  obtain items logs where "loadPlaylists_resume r s = s\<lparr>playlistItems := items, console := logs\<rparr>"
    using loadPlaylists_resume_frame by blast
  then have lp: "currentScreen (loadPlaylists_resume r s) = currentScreen s" by simp
  show ?thesis
  proof (cases c)
    case AudioPlay
    then show ?thesis by (simp add: audioPlay_resume_def console_log_def split: outcome.split)
  next
    case (Fetch req)
    then show ?thesis using lp
      by (cases req)
         (simp_all add: connectToSpotify_resume_def connectToSpotify_catch_def addPlaylist_resume_def
            removePlaylist_resume_def loadPlaylists_call_def playRandomTrack_resume_def
            playRandomTrack_catch_def resetGame_resume_def prim_defs Let_def
            split: outcome.split option.split)
  qed
qed

lemma resume_tracksPlayed:
  "c \<noteq> Fetch PostReset \<Longrightarrow> tracksPlayed s \<le> tracksPlayed (resume c r s)"
proof -
  assume nr: "c \<noteq> Fetch PostReset"
  obtain items logs where "loadPlaylists_resume r s = s\<lparr>playlistItems := items, console := logs\<rparr>"
    using loadPlaylists_resume_frame by blast
  then have lp: "tracksPlayed (loadPlaylists_resume r s) = tracksPlayed s" by simp
  show ?thesis
  proof (cases c)
    case AudioPlay
    then show ?thesis by (simp add: audioPlay_resume_def console_log_def split: outcome.split)
  next
    case (Fetch req)
    then show ?thesis using lp nr
      by (cases req)
         (simp_all add: connectToSpotify_resume_def connectToSpotify_catch_def addPlaylist_resume_def
            removePlaylist_resume_def loadPlaylists_call_def playRandomTrack_resume_def
            playRandomTrack_catch_def prim_defs Let_def
            split: outcome.split option.split)
  qed
qed

lemma playRandomTrack_call_frame:
  "selectedPlaylist (playRandomTrack_call s) = selectedPlaylist s \<and>
   currentScreen (playRandomTrack_call s) = currentScreen s \<and>
   tracksPlayed (playRandomTrack_call s) = tracksPlayed s"
  by (simp add: playRandomTrack_call_def playRandomTrack_catch_def prim_defs split: option.split)

lemma step_tracksPlayed:
  "\<not> settles_reset e s \<Longrightarrow> tracksPlayed s \<le> tracksPlayed (step e s)"
proof (cases e)
  case (Settle i r)
  assume "\<not> settles_reset e s"
  with Settle show ?thesis
    using resume_tracksPlayed[of _ "s\<lparr>settled := i # settled s\<rparr>" r]
    by (auto simp: settles_reset_def split: option.split)
next
  case ClickReveal
  then show ?thesis
    by (simp add: revealCard_def getNextCardColor_def prim_defs Let_def split: option.split)
qed (simp_all add: connectToSpotify_call_def addPlaylist_call_def startGame_def playNextSong_def
       openInSpotify_def resetGame_call_def item_click_def remove_click_def selectPlaylist_def
       removePlaylist_call_def playRandomTrack_call_frame prim_defs Let_def split: option.split)

lemma step_preserves_selected:
  assumes "playlist_selected_on_game s" and "enabled e s"
  shows "playlist_selected_on_game (step e s)"
proof (cases e)
  case (Settle i r)
  show ?thesis
  proof (cases "nth_opt (calls s) i")
    case None
    with Settle assms show ?thesis by simp
  next
    case (Some c)
    let ?s = "s\<lparr>settled := i # settled s\<rparr>"
    have "selectedPlaylist (resume c r ?s) = selectedPlaylist s"
      by (simp add: resume_selectedPlaylist)
    moreover have "currentScreen (resume c r ?s) = currentScreen s \<or> currentScreen (resume c r ?s) = Playlist"
      using resume_currentScreen[of c r ?s] by simp
    ultimately show ?thesis using Settle Some assms
      by (auto simp: playlist_selected_on_game_def)
  qed
next
  case ClickStart
  with assms show ?thesis
    by (cases "selectedPlaylist s")
       (simp_all add: playlist_selected_on_game_def startGame_def playRandomTrack_call_frame prim_defs)
next
  case ClickReveal
  with assms show ?thesis
    by (simp add: playlist_selected_on_game_def revealCard_def getNextCardColor_def prim_defs Let_def
          split: option.split)
next
  case ClickPlayNext
  with assms show ?thesis
    by (simp add: playlist_selected_on_game_def playNextSong_def playRandomTrack_call_frame prim_defs)
qed (use assms in \<open>simp_all add: playlist_selected_on_game_def connectToSpotify_call_def
       addPlaylist_call_def openInSpotify_def resetGame_call_def item_click_def remove_click_def
       selectPlaylist_def removePlaylist_call_def prim_defs Let_def split: option.split\<close>)

lemma start_selected: "playlist_selected_on_game (new_SongamizerApp query stored)"
  by (simp add: playlist_selected_on_game_def new_SongamizerApp_def init_def checkAuthStatus_def
        loadPlaylists_call_def prim_defs Let_def)

lemma reachable_selected: "reachable s \<Longrightarrow> playlist_selected_on_game s"
  by (induction rule: reachable.induct) (simp_all add: start_selected step_preserves_selected)

lemma start_eq:
  "new_SongamizerApp [] [] =
     \<lparr>currentScreen = Connect, selectedPlaylist = JNull, currentTrack = JNull,
      tracksPlayed = 0, currentColorIndex = 0, activeScreen = Some Connect, dom = [],
      playlistItems = [], audioPaused = True, location_search = [], localStorage = [],
      location_href = None, opened = [], alerts = [], console = [], calls = [],
      settled = []\<rparr>"
  by code_simp

lemma resume_currentColorIndex: "currentColorIndex (resume c r s) = currentColorIndex s"
proof -
  obtain items logs where "loadPlaylists_resume r s = s\<lparr>playlistItems := items, console := logs\<rparr>"
    using loadPlaylists_resume_frame by blast
  then have lp: "currentColorIndex (loadPlaylists_resume r s) = currentColorIndex s" by simp
  show ?thesis
  proof (cases c)
    case AudioPlay
    then show ?thesis by (simp add: audioPlay_resume_def console_log_def split: outcome.split)
  next
    case (Fetch req)
    then show ?thesis using lp
      by (cases req)
         (simp_all add: connectToSpotify_resume_def connectToSpotify_catch_def addPlaylist_resume_def
            removePlaylist_resume_def loadPlaylists_call_def playRandomTrack_resume_def
            playRandomTrack_catch_def resetGame_resume_def prim_defs Let_def
            split: outcome.split option.split)
  qed
qed

lemma step_color_index:
  "currentColorIndex s < 8 \<Longrightarrow> currentColorIndex (step e s) < 8"
proof (cases e)
  case (Settle i r)
  assume "currentColorIndex s < 8"
  with Settle show ?thesis
    by (simp add: resume_currentColorIndex split: option.split)
next
  case ClickReveal
  assume "currentColorIndex s < 8"
  with ClickReveal show ?thesis
    by (simp add: revealCard_def getNextCardColor_def cardColors_def prim_defs Let_def
          split: option.split)
qed (simp_all add: connectToSpotify_call_def addPlaylist_call_def startGame_def playNextSong_def
       openInSpotify_def resetGame_call_def item_click_def remove_click_def selectPlaylist_def
       removePlaylist_call_def playRandomTrack_call_def playRandomTrack_catch_def
       prim_defs Let_def split: option.split)

lemma reachable_color_index: "reachable s \<Longrightarrow> currentColorIndex s < 8"
proof (induction rule: reachable.induct)
  case (start query stored)
  show ?case
    by (simp add: new_SongamizerApp_def init_def checkAuthStatus_def loadPlaylists_call_def
          prim_defs Let_def)
next
  case (after s e)
  then show ?case by (simp add: step_color_index)
qed

lemma advance_color_iter:
  "currentColorIndex s < 8 \<Longrightarrow>
   (advance_color ^^ k) s = s\<lparr>currentColorIndex := (currentColorIndex s + k) mod 8\<rparr>"
proof (induction k)
  case 0
  then show ?case by simp
next
  case (Suc k)
  then show ?case
    by (simp add: advance_color_def getNextCardColor_def cardColors_def Let_def mod_Suc_eq)
qed

lemma enabled_play_next: "enabled e s \<Longrightarrow> play_next_on_reveal e s"
  by (cases e) simp_all

lemma reachable_wide: "reachable s \<Longrightarrow> reachable_wide s"
  by (induction rule: reachable.induct)
     (auto intro: reachable_wide.intros enabled_play_next)

lemma forEach_playlist_items:
  "list_all (\<lambda>item. fst item \<noteq> JNull) (playlistItems s) \<Longrightarrow>
   list_all (\<lambda>item. fst item \<noteq> JNull) (playlistItems (snd (forEach_playlist ps s)))"
proof (induction ps arbitrary: s)
  case Nil
  then show ?case by simp
next
  case (Cons p ps)
  show ?case
  proof (cases "get_prop p ''name'' = None \<or> get_prop p ''id'' = None")
    case True
    with Cons.prems show ?thesis by auto
  next
    case False
    then have "p \<noteq> JNull" by auto
    with Cons.prems
    have "list_all (\<lambda>item. fst item \<noteq> JNull) (playlistItems (s\<lparr>playlistItems := playlistItems s @ [(p, False)]\<rparr>))"
      by simp
    from Cons.IH [OF this] False show ?thesis by auto
  qed
qed

lemma renderPlaylists_items:
  "list_all (\<lambda>item. fst item \<noteq> JNull) (playlistItems (snd (renderPlaylists v s)))"
proof (cases v)
  case (JArr ps)
  have "list_all (\<lambda>item. fst item \<noteq> JNull) (playlistItems (s\<lparr>playlistItems := []\<rparr>))" by simp
  from forEach_playlist_items [OF this, of ps] JArr show ?thesis
    by (simp add: renderPlaylists_def)
qed (simp_all add: renderPlaylists_def)

lemma loadPlaylists_resume_items:
  "\<exists>items logs. loadPlaylists_resume r s = s\<lparr>playlistItems := items, console := logs\<rparr> \<and>
     (list_all (\<lambda>item. fst item \<noteq> JNull) (playlistItems s) \<longrightarrow> list_all (\<lambda>item. fst item \<noteq> JNull) items)"
proof -
  have keep: "\<exists>items logs. s = s\<lparr>playlistItems := items, console := logs\<rparr> \<and>
     (list_all (\<lambda>item. fst item \<noteq> JNull) (playlistItems s) \<longrightarrow> list_all (\<lambda>item. fst item \<noteq> JNull) items)"
    by (intro exI[of _ "playlistItems s"] exI[of _ "console s"]) simp
  have log: "\<exists>items logs. loadPlaylists_catch s = s\<lparr>playlistItems := items, console := logs\<rparr> \<and>
     (list_all (\<lambda>item. fst item \<noteq> JNull) (playlistItems s) \<longrightarrow> list_all (\<lambda>item. fst item \<noteq> JNull) items)"
    by (intro exI[of _ "playlistItems s"] exI[of _ "console s @ [''Error loading playlists:'']"])
       (simp add: loadPlaylists_catch_def console_log_def)
  have render: "\<exists>items logs. (case renderPlaylists v s of (Returned, s1) \<Rightarrow> s1
                      | (Threw, s1) \<Rightarrow> loadPlaylists_catch s1) = s\<lparr>playlistItems := items, console := logs\<rparr> \<and>
     (list_all (\<lambda>item. fst item \<noteq> JNull) (playlistItems s) \<longrightarrow> list_all (\<lambda>item. fst item \<noteq> JNull) items)" for v
  proof -
    obtain items where i: "snd (renderPlaylists v s) = s\<lparr>playlistItems := items\<rparr>"
      using renderPlaylists_frame by blast
    have good: "list_all (\<lambda>item. fst item \<noteq> JNull) items"
      using renderPlaylists_items [of v s] i by simp
    obtain c s1 where p: "renderPlaylists v s = (c, s1)" by (cases "renderPlaylists v s")
    with i have s1: "s1 = s\<lparr>playlistItems := items\<rparr>" by simp
    show ?thesis
    proof (cases c)
      case Returned
      with p s1 good show ?thesis
        by (intro exI[of _ items] exI[of _ "console s"]) simp
    next
      case Threw
      with p s1 good show ?thesis
        by (intro exI[of _ items] exI[of _ "console s @ [''Error loading playlists:'']"])
           (simp add: loadPlaylists_catch_def console_log_def)
    qed
  qed
  show ?thesis
    unfolding loadPlaylists_resume_def
    using keep log render
    by (simp split: outcome.split option.split)
qed

lemma selectPlaylist_items:
  "list_all (\<lambda>item. fst item \<noteq> JNull)
     (map (\<lambda>(i, item). (fst item, i = element)) (enumerate n xs)) =
   list_all (\<lambda>item. fst item \<noteq> JNull) xs"
  by (induction xs arbitrary: n) simp_all

lemma selectPlaylist_selection_history:
  assumes "selection_history s" and "playlist \<noteq> JNull"
  shows "selection_history (selectPlaylist playlist element s)"
  using assms
  by (simp add: selection_history_def selectPlaylist_def selectPlaylist_items prim_defs)

lemma nth_opt_fst:
  "nth_opt xs i = Some item \<Longrightarrow> list_all (\<lambda>item. fst item \<noteq> JNull) xs \<Longrightarrow> fst item \<noteq> JNull"
  by (auto simp: nth_opt_def list_all_length split: if_splits)

lemma resume_selection_history:
  assumes "selection_history s" and "c \<in> set (calls s)"
  shows "selection_history (resume c r (s\<lparr>settled := k\<rparr>))"
proof -
  let ?s = "s\<lparr>settled := k\<rparr>"
  have h: "selection_history ?s" using assms(1) by (simp add: selection_history_def)
  show ?thesis
  proof (cases c)
    case AudioPlay
    with h show ?thesis
      by (simp add: selection_history_def audioPlay_resume_def console_log_def split: outcome.split)
  next
    case (Fetch req)
    show ?thesis
    proof (cases req)
      case GetPlaylists
      obtain items logs where
        "loadPlaylists_resume r ?s = ?s\<lparr>playlistItems := items, console := logs\<rparr>"
        "list_all (\<lambda>item. fst item \<noteq> JNull) (playlistItems ?s) \<longrightarrow> list_all (\<lambda>item. fst item \<noteq> JNull) items"
        using loadPlaylists_resume_items by blast
      with h Fetch GetPlaylists show ?thesis
        by (simp add: selection_history_def)
    next
      case (GetPlayTrack pid)
      with Fetch assms(2) have "list_ex is_track_request (calls s)"
        by (force simp: list_ex_iff)
      with h have sel: "selectedPlaylist ?s \<noteq> JNull" "list_all (\<lambda>item. fst item \<noteq> JNull) (playlistItems ?s)"
        by (simp_all add: selection_history_def)
      then show ?thesis using Fetch GetPlayTrack
        by (simp add: selection_history_def playRandomTrack_resume_def playRandomTrack_catch_def
              prim_defs Let_def split: outcome.split option.split)
    qed (use h Fetch in \<open>simp_all add: selection_history_def connectToSpotify_resume_def
           connectToSpotify_catch_def addPlaylist_resume_def removePlaylist_resume_def
           loadPlaylists_call_def resetGame_resume_def prim_defs Let_def list_ex_iff
           split: outcome.split option.split\<close>)
  qed
qed

lemma step_selection_history:
  assumes "selection_history s" and "play_next_on_reveal e s"
  shows "selection_history (step e s)"
proof (cases e)
  case (Settle i r)
  show ?thesis
  proof (cases "nth_opt (calls s) i")
    case None
    with Settle assms show ?thesis by simp
  next
    case (Some c)
    then have "c \<in> set (calls s)"
      by (auto simp: nth_opt_def split: if_splits)
    from resume_selection_history [OF assms(1) this] Settle Some assms(1) show ?thesis
      by simp
  qed
next
  case ClickStart
  with assms show ?thesis
    by (cases "selectedPlaylist s")
       (simp_all add: selection_history_def startGame_def playRandomTrack_call_def
          playRandomTrack_catch_def prim_defs list_ex_iff)
next
  case ClickReveal
  with assms show ?thesis
    by (auto simp: selection_history_def revealCard_def getNextCardColor_def prim_defs Let_def
          split: option.split)
next
  case ClickPlayNext
  with assms show ?thesis
    by (cases "selectedPlaylist s")
       (simp_all add: selection_history_def playNextSong_def playRandomTrack_call_def
          playRandomTrack_catch_def prim_defs list_ex_iff)
next
  case (ClickPlaylistItem i)
  show ?thesis
  proof (cases "nth_opt (playlistItems s) i")
    case None
    with ClickPlaylistItem assms show ?thesis by (simp add: item_click_def)
  next
    case (Some item)
    with assms(1) have "fst item \<noteq> JNull"
      by (auto simp: selection_history_def dest: nth_opt_fst)
    from selectPlaylist_selection_history [OF assms(1) this] ClickPlaylistItem Some
    show ?thesis by (simp add: item_click_def)
  qed
next
  case (ClickRemove i on_icon argument)
  show ?thesis
  proof (cases "nth_opt (playlistItems s) i")
    case None
    with ClickRemove assms show ?thesis by (simp add: remove_click_def)
  next
    case (Some item)
    with assms(1) have item: "fst item \<noteq> JNull"
      by (auto simp: selection_history_def dest: nth_opt_fst)
    let ?s1 = "case argument of None \<Rightarrow> s
               | Some playlistId \<Rightarrow> removePlaylist_call playlistId s"
    have s1: "selection_history ?s1"
      using assms(1)
      by (simp add: selection_history_def removePlaylist_call_def prim_defs list_ex_iff
            split: option.split)
    from selectPlaylist_selection_history [OF s1 item] s1 ClickRemove Some
    show ?thesis by (simp add: remove_click_def Let_def)
  qed
qed (use assms in \<open>auto simp: selection_history_def connectToSpotify_call_def
       addPlaylist_call_def openInSpotify_def resetGame_call_def prim_defs Let_def list_ex_iff
       split: option.split\<close>)

lemma start_selection_history: "selection_history (new_SongamizerApp query stored)"
  by (simp add: selection_history_def new_SongamizerApp_def init_def checkAuthStatus_def
        loadPlaylists_call_def prim_defs Let_def)

lemma reachable_wide_selected: "reachable_wide s \<Longrightarrow> playlist_selected_on_game s"
proof -
  assume "reachable_wide s"
  then have "selection_history s"
    by (induction rule: reachable_wide.induct)
       (simp_all add: start_selection_history step_selection_history)
  then show ?thesis
    by (auto simp: selection_history_def playlist_selected_on_game_def)
qed

lemma resume_selected_on_game:
  assumes "playlist_selected_on_game s"
  shows "playlist_selected_on_game (resume c r s)"
  using assms resume_selectedPlaylist [of c r s] resume_currentScreen [of c r s]
  by (auto simp: playlist_selected_on_game_def)

subsection \<open>Reset\<close>

text \<open>
  C1, as stated, asks for the local reset after every outcome of the reset request. It fails
  when the \<^verbatim>\<open>fetch\<close> is rejected: in the example session the counter stays at 1, the track
  stays loaded, the audio element keeps its source and is not paused, and the game screen
  stays active.
\<close>

theorem resetGame_rejected_counterexample:
  "tracksPlayed (resetGame Rejected playing) = 1 \<and>
   currentTrack (resetGame Rejected playing) \<noteq> JNull \<and>
   \<not> audioPaused (resetGame Rejected playing) \<and>
   getProperty ''audioPlayer'' ''src'' (resetGame Rejected playing) =
     Some (JStr ''https://cdn.example/x.mp3'') \<and>
   currentScreen (resetGame Rejected playing) = Game \<and>
   activeScreen (resetGame Rejected playing) = Some Game"
  by (simp add: resetGame_def resetGame_call_def resetGame_resume_def prim_defs playing_eq
        track_XY_def)

text \<open>
  C1, amended. For every prior state and every response to the reset request (2xx or not),
  after \<^verbatim>\<open>resetGame\<close> the play counter is 0, the current track is null, the audio is paused
  with an empty source, and the active screen is the playlist screen; one request was sent.
  When the request is rejected (network error), \<^verbatim>\<open>resetGame\<close> logs the error and changes
  nothing else.
\<close>

theorem resetGame_local_reset:
  "tracksPlayed (resetGame (Resolved resp) s) = 0 \<and>
   currentTrack (resetGame (Resolved resp) s) = JNull \<and>
   audioPaused (resetGame (Resolved resp) s) \<and>
   getProperty ''audioPlayer'' ''src'' (resetGame (Resolved resp) s) = Some (JStr []) \<and>
   currentScreen (resetGame (Resolved resp) s) = Playlist \<and>
   activeScreen (resetGame (Resolved resp) s) = Some Playlist \<and>
   calls (resetGame (Resolved resp) s) = calls s @ [Fetch PostReset] \<and>
   resetGame Rejected s =
     s\<lparr>console := console s @ [''Error resetting game:''],
       calls := calls s @ [Fetch PostReset]\<rparr>"
  by (simp add: resetGame_def resetGame_call_def resetGame_resume_def prim_defs)

subsection \<open>Authorization\<close>

text \<open>
  C2, as stated, asks for an alert on every failing run, a JSON response without
  \<^verbatim>\<open>auth_url\<close> included. On the connect screen, the response \<^verbatim>\<open>{}\<close> gives no alert (and
  no navigation).
\<close>

theorem connectToSpotify_silent_counterexample:
  "alerts (connectToSpotify (Resolved (Response True (Some (JObj []))))
             (new_SongamizerApp [] [])) = [] \<and>
   location_href (connectToSpotify (Resolved (Response True (Some (JObj []))))
             (new_SongamizerApp [] [])) = None"
  by (simp add: connectToSpotify_def connectToSpotify_call_def connectToSpotify_resume_def
        prim_defs start_eq)

text \<open>
  C2, amended. Every run of \<^verbatim>\<open>connectToSpotify\<close> sends exactly one request (no retry). When
  the run throws (the request is rejected, the body is not JSON, or the body is null), the
  alert "Failed to connect to Spotify. Please try again." is shown and no navigation occurs.
  When the body is JSON whose \<^verbatim>\<open>auth_url\<close> is missing or falsy, no navigation occurs and no
  alert is shown. Otherwise the browser navigates to \<^verbatim>\<open>auth_url\<close>.
\<close>

theorem connectToSpotify_failures:
  "calls (connectToSpotify r s) = calls s @ [Fetch GetAuthorize] \<and>
   (throws_reading ''auth_url'' r \<longrightarrow>
      alerts (connectToSpotify r s) =
        alerts s @ [''Failed to connect to Spotify. Please try again.''] \<and>
      location_href (connectToSpotify r s) = location_href s) \<and>
   (\<not> throws_reading ''auth_url'' r \<and> \<not> truthy (read_field ''auth_url'' r) \<longrightarrow>
      alerts (connectToSpotify r s) = alerts s \<and>
      location_href (connectToSpotify r s) = location_href s) \<and>
   (\<not> throws_reading ''auth_url'' r \<and> truthy (read_field ''auth_url'' r) \<longrightarrow>
      alerts (connectToSpotify r s) = alerts s \<and>
      location_href (connectToSpotify r s) = Some (read_field ''auth_url'' r))"
  by (simp add: connectToSpotify_def connectToSpotify_call_def connectToSpotify_resume_def
        connectToSpotify_catch_def throws_reading_def read_field_def prim_defs
        split: outcome.split option.split)

theorem connectToSpotify_failures_witness:
  "throws_reading ''auth_url'' Rejected \<and>
   throws_reading ''auth_url'' (Resolved (Response False None)) \<and>
   throws_reading ''auth_url'' (Resolved (Response True (Some JNull))) \<and>
   alerts (connectToSpotify Rejected (new_SongamizerApp [] [])) =
     [''Failed to connect to Spotify. Please try again.''] \<and>
   location_href (connectToSpotify Rejected (new_SongamizerApp [] [])) = None \<and>
   \<not> throws_reading ''auth_url'' (Resolved (Response True (Some (JObj [])))) \<and>
   \<not> truthy (read_field ''auth_url'' (Resolved (Response True (Some (JObj []))))) \<and>
   alerts (connectToSpotify (Resolved (Response True (Some (JObj []))))
             (new_SongamizerApp [] [])) = [] \<and>
   \<not> throws_reading ''auth_url''
        (Resolved (Response True
           (Some (JObj [(''auth_url'', JStr ''https://accounts.example/a'')])))) \<and>
   location_href (connectToSpotify
        (Resolved (Response True
           (Some (JObj [(''auth_url'', JStr ''https://accounts.example/a'')]))))
        (new_SongamizerApp [] [])) = Some (JStr ''https://accounts.example/a'')"
proof -
  have s0: "alerts (new_SongamizerApp [] []) = []" "location_href (new_SongamizerApp [] []) = None"
    by (simp_all add: start_eq)
  show ?thesis
    using connectToSpotify_failures [of Rejected "new_SongamizerApp [] []"]
          connectToSpotify_failures
            [of "Resolved (Response True (Some (JObj [])))" "new_SongamizerApp [] []"]
          connectToSpotify_failures
            [of "Resolved (Response True
                   (Some (JObj [(''auth_url'', JStr ''https://accounts.example/a'')])))"
                "new_SongamizerApp [] []"]
    by (simp add: s0 throws_reading_def read_field_def)
qed

subsection \<open>The play counter\<close>

text \<open>
  C3, as stated, has \<^verbatim>\<open>resetGame\<close> set the counter to 0 whatever its value. When the reset
  request is rejected the counter keeps its value: 1 before and after in the example session.
\<close>

theorem counter_reset_rejected_counterexample:
  "tracksPlayed playing = 1 \<and> tracksPlayed (resetGame Rejected playing) = 1"
  by (simp add: resetGame_def resetGame_call_def resetGame_resume_def prim_defs playing_eq)

text \<open>
  C3, amended. The play counter is 0 after the constructor. When a track request settles
  with a response containing a (truthy) track the counter grows by exactly 1 (whatever
  happened since the request was sent, and so also in a whole run of \<^verbatim>\<open>playRandomTrack\<close>
  with a playlist selected), and by nothing when it settles otherwise. No event but the settlement of a reset request makes it smaller.
  \<^verbatim>\<open>resetGame\<close> sets it to 0, whatever it was, when the reset request gets a response (2xx
  or not), and leaves it as it is when the request is rejected.
\<close>

theorem play_counter:
  "tracksPlayed (new_SongamizerApp query stored) = 0 \<and>
   (\<not> throws_reading ''track'' r \<and> truthy (read_field ''track'' r) \<longrightarrow>
      tracksPlayed (playRandomTrack_resume r s) = tracksPlayed s + 1) \<and>
   (throws_reading ''track'' r \<or> \<not> truthy (read_field ''track'' r) \<longrightarrow>
      tracksPlayed (playRandomTrack_resume r s) = tracksPlayed s) \<and>
   (selectedPlaylist s \<noteq> JNull \<and> selectedPlaylist s \<noteq> JUndefined \<and>
    \<not> throws_reading ''track'' r \<and> truthy (read_field ''track'' r) \<longrightarrow>
      tracksPlayed (playRandomTrack r s) = tracksPlayed s + 1) \<and>
   (\<not> settles_reset e s \<longrightarrow> tracksPlayed s \<le> tracksPlayed (step e s)) \<and>
   tracksPlayed (resetGame (Resolved resp) s) = 0 \<and>
   tracksPlayed (resetGame Rejected s) = tracksPlayed s"
proof -
  have a: "tracksPlayed (new_SongamizerApp query stored) = 0"
    by (simp add: new_SongamizerApp_def init_def checkAuthStatus_def loadPlaylists_call_def
          prim_defs Let_def)
  have b: "tracksPlayed (playRandomTrack_resume r s) = tracksPlayed s + 1"
    if "\<not> throws_reading ''track'' r \<and> truthy (read_field ''track'' r)" for s
  proof -
    from that obtain resp data track where r: "r = Resolved resp" "json resp = Some data"
        "get_prop data ''track'' = Some track" "truthy track"
      by (auto simp: throws_reading_def read_field_def split: outcome.splits option.splits)
    then obtain u where "get_prop track ''stream_url'' = Some u"
      by (cases track) auto
    with r show ?thesis
      by (simp add: playRandomTrack_resume_def prim_defs Let_def)
  qed
  have c: "tracksPlayed (playRandomTrack_resume r s) = tracksPlayed s"
    if "throws_reading ''track'' r \<or> \<not> truthy (read_field ''track'' r)"
    using that
    by (auto simp: throws_reading_def read_field_def playRandomTrack_resume_def
          playRandomTrack_catch_def prim_defs split: outcome.splits option.splits)
  have d: "tracksPlayed (resetGame (Resolved resp) s) = 0 \<and>
           tracksPlayed (resetGame Rejected s) = tracksPlayed s"
    by (simp add: resetGame_def resetGame_call_def resetGame_resume_def prim_defs)
  have w: "tracksPlayed (playRandomTrack r s) = tracksPlayed s + 1"
    if sel: "selectedPlaylist s \<noteq> JNull \<and> selectedPlaylist s \<noteq> JUndefined"
      and tr: "\<not> throws_reading ''track'' r \<and> truthy (read_field ''track'' r)"
  proof -
    from sel obtain playlistId where "get_prop (selectedPlaylist s) ''id'' = Some playlistId"
      by (cases "selectedPlaylist s") auto
    then have "playRandomTrack r s = playRandomTrack_resume r (playRandomTrack_call s)"
      by (simp add: playRandomTrack_def)
    with b [OF tr, of "playRandomTrack_call s"] show ?thesis
      by (simp add: playRandomTrack_call_frame)
  qed
  from a b [of s] c d w step_tracksPlayed show ?thesis by blast
qed

theorem play_counter_witness:
  "\<not> throws_reading ''track'' (Resolved (Response True (Some (JObj [(''track'', track_XY)])))) \<and>
   truthy (read_field ''track'' (Resolved (Response True (Some (JObj [(''track'', track_XY)]))))) \<and>
   tracksPlayed playing = 1 \<and>
   tracksPlayed (playRandomTrack_resume
      (Resolved (Response True (Some (JObj [(''track'', track_XY)])))) playing) = 2 \<and>
   selectedPlaylist playing \<noteq> JNull \<and> selectedPlaylist playing \<noteq> JUndefined \<and>
   tracksPlayed (playRandomTrack
      (Resolved (Response True (Some (JObj [(''track'', track_XY)])))) playing) = 2 \<and>
   throws_reading ''track'' Rejected \<and>
   tracksPlayed (playRandomTrack_resume Rejected playing) = 1 \<and>
   \<not> settles_reset ClickReveal playing \<and>
   tracksPlayed playing \<le> tracksPlayed (step ClickReveal playing)"
proof -
  have n: "tracksPlayed playing = 1" by (simp add: playing_eq)
  have t: "\<not> throws_reading ''track''
               (Resolved (Response True (Some (JObj [(''track'', track_XY)])))) \<and>
           truthy (read_field ''track''
               (Resolved (Response True (Some (JObj [(''track'', track_XY)])))))"
    by (simp add: throws_reading_def read_field_def track_XY_def)
  have rj: "throws_reading ''track'' Rejected" by (simp add: throws_reading_def)
  have nr: "\<not> settles_reset ClickReveal playing" by (simp add: settles_reset_def)
  have sel: "selectedPlaylist playing \<noteq> JNull \<and> selectedPlaylist playing \<noteq> JUndefined"
    by (simp add: playing_eq one_playlist_def)
  from play_counter [of "[]" "[]" "Resolved (Response True (Some (JObj [(''track'', track_XY)])))"
                        playing ClickReveal]
       play_counter [of "[]" "[]" Rejected playing ClickReveal] n t rj nr sel
  show ?thesis by simp
qed

subsection \<open>A playlist is selected on the game and reveal screens\<close>

text \<open>
  C4. In every state a session reaches, if the active screen is the game or the reveal screen
  then \<^verbatim>\<open>selectedPlaylist\<close> is not null, and every operation of the controller preserves
  this invariant:
  \<^item> every event, occurring on the screen where the page offers it, takes a state where the
    invariant holds to one where it holds;
  \<^item> the invariant also holds in every state of the wider sessions in which only play next is
    confined to its screen, and every event of such a session preserves it there
    (\<^verbatim>\<open>revealCard\<close> shows the reveal screen only with a track loaded, and a track is only
    ever requested for a selected playlist; \<^verbatim>\<open>playNextSong\<close> is bound to the button of the
    reveal screen);
  \<^item> \<^verbatim>\<open>startGame\<close>, \<^verbatim>\<open>resetGame\<close>, \<^verbatim>\<open>connectToSpotify\<close>, \<^verbatim>\<open>openInSpotify\<close>,
    \<^verbatim>\<open>playRandomTrack\<close>, \<^verbatim>\<open>addPlaylist\<close>, \<^verbatim>\<open>removePlaylist\<close>, \<^verbatim>\<open>loadPlaylists\<close>,
    \<^verbatim>\<open>showScreen('playlist')\<close> and \<^verbatim>\<open>checkAuthStatus\<close> preserve it in whatever state they
    run, and so does \<^verbatim>\<open>selectPlaylist\<close> of a playlist that is not null.
\<close>

theorem selected_on_game_screens:
  "(reachable s \<longrightarrow> playlist_selected_on_game s) \<and>
   (playlist_selected_on_game s \<and> enabled e s \<longrightarrow> playlist_selected_on_game (step e s)) \<and>
   (reachable_wide s \<longrightarrow>
      playlist_selected_on_game s \<and>
      (play_next_on_reveal e s \<longrightarrow> playlist_selected_on_game (step e s))) \<and>
   (playlist_selected_on_game s \<longrightarrow>
      playlist_selected_on_game (startGame s) \<and>
      playlist_selected_on_game (resetGame r s) \<and>
      playlist_selected_on_game (connectToSpotify r s) \<and>
      playlist_selected_on_game (openInSpotify s) \<and>
      playlist_selected_on_game (playRandomTrack r s) \<and>
      playlist_selected_on_game (addPlaylist_call url s) \<and>
      playlist_selected_on_game (addPlaylist_resume r s) \<and>
      playlist_selected_on_game (removePlaylist_call playlistId s) \<and>
      playlist_selected_on_game (removePlaylist_resume r s) \<and>
      playlist_selected_on_game (loadPlaylists_call s) \<and>
      playlist_selected_on_game (loadPlaylists_resume r s) \<and>
      playlist_selected_on_game (showScreen Playlist s) \<and>
      playlist_selected_on_game (checkAuthStatus s)) \<and>
   (playlist_selected_on_game s \<and> playlist \<noteq> JNull \<longrightarrow>
      playlist_selected_on_game (selectPlaylist playlist element s))"
proof -
  have wide: "playlist_selected_on_game s \<and>
              (play_next_on_reveal e s \<longrightarrow> playlist_selected_on_game (step e s))"
    if "reachable_wide s"
    using that reachable_wide_selected reachable_wide.wide_after by blast
  have ops: "playlist_selected_on_game (startGame s) \<and>
      playlist_selected_on_game (resetGame r s) \<and>
      playlist_selected_on_game (connectToSpotify r s) \<and>
      playlist_selected_on_game (openInSpotify s) \<and>
      playlist_selected_on_game (playRandomTrack r s) \<and>
      playlist_selected_on_game (addPlaylist_call url s) \<and>
      playlist_selected_on_game (addPlaylist_resume r s) \<and>
      playlist_selected_on_game (removePlaylist_call playlistId s) \<and>
      playlist_selected_on_game (removePlaylist_resume r s) \<and>
      playlist_selected_on_game (loadPlaylists_call s) \<and>
      playlist_selected_on_game (loadPlaylists_resume r s) \<and>
      playlist_selected_on_game (showScreen Playlist s) \<and>
      playlist_selected_on_game (checkAuthStatus s)"
    if inv: "playlist_selected_on_game s"
  proof -
    have res: "playlist_selected_on_game (resume c r t)" if "playlist_selected_on_game t" for c t
      using that by (rule resume_selected_on_game)
    have call: "playlist_selected_on_game (fetch req s)" for req
      using inv by (simp add: playlist_selected_on_game_def fetch_def)
    have track_call: "playlist_selected_on_game (playRandomTrack_call s)"
      using inv by (simp add: playlist_selected_on_game_def playRandomTrack_call_frame)
    have 1: "playlist_selected_on_game (startGame s)"
      using inv
      by (cases "selectedPlaylist s")
         (simp_all add: playlist_selected_on_game_def startGame_def playRandomTrack_call_frame
            prim_defs)
    have 2: "playlist_selected_on_game (resetGame r s)"
      using res [OF call [of PostReset], of "Fetch PostReset"]
      by (simp add: resetGame_def resetGame_call_def)
    have 3: "playlist_selected_on_game (connectToSpotify r s)"
      using res [OF call [of GetAuthorize], of "Fetch GetAuthorize"]
      by (simp add: connectToSpotify_def connectToSpotify_call_def)
    have 4: "playlist_selected_on_game (openInSpotify s)"
      using inv
      by (simp add: playlist_selected_on_game_def openInSpotify_def split: option.split)
    have 5: "playlist_selected_on_game (playRandomTrack r s)"
      using track_call res [OF track_call, of "Fetch (GetPlayTrack JNull)"]
      by (simp add: playRandomTrack_def split: option.split)
    have 6: "playlist_selected_on_game (addPlaylist_call url s)"
      using inv call by (simp add: addPlaylist_call_def)
    have 7: "playlist_selected_on_game (addPlaylist_resume r s)"
      using res [OF inv, of "Fetch (PostPlaylist [])"] by simp
    have 8: "playlist_selected_on_game (removePlaylist_call playlistId s)"
      using call by (simp add: removePlaylist_call_def)
    have 9: "playlist_selected_on_game (removePlaylist_resume r s)"
      using res [OF inv, of "Fetch (DeletePlaylist [])"] by simp
    have 10: "playlist_selected_on_game (loadPlaylists_call s)"
      using call by (simp add: loadPlaylists_call_def)
    have 11: "playlist_selected_on_game (loadPlaylists_resume r s)"
      using res [OF inv, of "Fetch GetPlaylists"] by simp
    have 12: "playlist_selected_on_game (showScreen Playlist s)"
      by (simp add: playlist_selected_on_game_def showScreen_def)
    have 13: "playlist_selected_on_game (checkAuthStatus s)"
      by (simp add: playlist_selected_on_game_def checkAuthStatus_def loadPlaylists_call_def
            prim_defs Let_def)
    from 1 2 3 4 5 6 7 8 9 10 11 12 13 show ?thesis by blast
  qed
  have select: "playlist_selected_on_game (selectPlaylist playlist element s)"
    if "playlist \<noteq> JNull"
    using that by (simp add: playlist_selected_on_game_def selectPlaylist_def prim_defs)
  from wide ops select reachable_selected step_preserves_selected show ?thesis by blast
qed

theorem selected_on_game_screens_witness:
  "reachable playing \<and> reachable_wide playing \<and> currentScreen playing = Game \<and>
   selectedPlaylist playing \<noteq> JNull \<and> playlist_selected_on_game playing \<and>
   enabled ClickReveal playing \<and> play_next_on_reveal ClickReveal playing \<and>
   currentScreen (step ClickReveal playing) = Reveal \<and>
   playlist_selected_on_game (step ClickReveal playing) \<and>
   playlist_selected_on_game (startGame playing)"
proof -
  have en: "enabled ClickReveal playing" and g: "currentScreen playing = Game"
    by (simp_all add: playing_eq)
  have pn: "play_next_on_reveal ClickReveal playing" by simp
  have rw: "reachable_wide playing" using reachable_playing by (rule reachable_wide)
  have rv: "currentScreen (step ClickReveal playing) = Reveal"
    by (simp add: playing_eq track_XY_def revealCard_def getNextCardColor_def prim_defs Let_def)
  from selected_on_game_screens [where s = playing and e = ClickReveal] reachable_playing en
  have "playlist_selected_on_game playing \<and>
        playlist_selected_on_game (step ClickReveal playing) \<and>
        playlist_selected_on_game (startGame playing)"
    by blast
  with reachable_playing rw en pn g rv show ?thesis
    by (simp add: playlist_selected_on_game_def)
qed

subsection \<open>Guards of \<^verbatim>\<open>startGame\<close> and \<^verbatim>\<open>revealCard\<close>\<close>

text \<open>
  C5. In every state in which no playlist is selected (\<^verbatim>\<open>selectedPlaylist\<close> is null),
  \<^verbatim>\<open>startGame\<close> shows the alert "Please select a playlist first." and does nothing else:
  no request is sent, the screen stays, and every other part of the state is as before.
\<close>

theorem startGame_without_selection:
  assumes "selectedPlaylist s = JNull"
  shows "startGame s = s\<lparr>alerts := alerts s @ [''Please select a playlist first.'']\<rparr> \<and>
         calls (startGame s) = calls s \<and>
         currentScreen (startGame s) = currentScreen s \<and>
         activeScreen (startGame s) = activeScreen s"
  using assms by (simp add: startGame_def alert_def)

theorem startGame_without_selection_witness:
  "selectedPlaylist (new_SongamizerApp [] []) = JNull \<and>
   alerts (startGame (new_SongamizerApp [] [])) = [''Please select a playlist first.''] \<and>
   calls (startGame (new_SongamizerApp [] [])) = [] \<and>
   currentScreen (startGame (new_SongamizerApp [] [])) = Connect"
proof -
  have none: "selectedPlaylist (new_SongamizerApp [] []) = JNull"
    by (simp add: start_eq)
  from startGame_without_selection [OF none] none show ?thesis
    by (simp add: start_eq)
qed

text \<open>
  C6. In every state in which no track is loaded (\<^verbatim>\<open>currentTrack\<close> is null),
  \<^verbatim>\<open>revealCard\<close> shows the alert "No track loaded. Please try again." and does nothing
  else: the active screen is what it was (so it does not become the reveal screen unless it
  already was).
\<close>

theorem revealCard_without_track:
  assumes "currentTrack s = JNull"
  shows "revealCard s = s\<lparr>alerts := alerts s @ [''No track loaded. Please try again.'']\<rparr> \<and>
         currentScreen (revealCard s) = currentScreen s \<and>
         activeScreen (revealCard s) = activeScreen s"
  using assms by (simp add: revealCard_def alert_def)

theorem revealCard_without_track_witness:
  "currentTrack (new_SongamizerApp [] []) = JNull \<and>
   alerts (revealCard (new_SongamizerApp [] [])) = [''No track loaded. Please try again.''] \<and>
   currentScreen (revealCard (new_SongamizerApp [] [])) = Connect \<and>
   activeScreen (revealCard (new_SongamizerApp [] [])) = Some Connect"
proof -
  have none: "currentTrack (new_SongamizerApp [] []) = JNull"
    by (simp add: start_eq)
  from revealCard_without_track [OF none] none show ?thesis
    by (simp add: start_eq)
qed

subsection \<open>Colour rotation\<close>

text \<open>
  C7. \<^verbatim>\<open>getNextCardColor\<close> is a function of the controller's state. From any colour index
  (a position in the list of 8 colours, which is where the index is in every state a session
  reaches), one call returns the colour at the index and moves the index one position on,
  modulo 8, changing nothing else, so the next call returns the next colour of the list;
  8 calls bring the controller back to where it started, and no smaller positive number of
  calls does. The 8 colours are distinct.
\<close>

theorem color_cycle:
  assumes "currentColorIndex s < 8"
  shows "fst (getNextCardColor s) = Some (cardColors ! currentColorIndex s) \<and>
         advance_color s = s\<lparr>currentColorIndex := (currentColorIndex s + 1) mod 8\<rparr> \<and>
         fst (getNextCardColor (advance_color s)) =
           Some (cardColors ! ((currentColorIndex s + 1) mod 8)) \<and>
         (advance_color ^^ 8) s = s \<and>
         (\<forall>k. 0 < k \<and> k < 8 \<longrightarrow>
            currentColorIndex ((advance_color ^^ k) s) \<noteq> currentColorIndex s) \<and>
         distinct cardColors \<and> length cardColors = 8 \<and>
         (\<forall>t. reachable t \<longrightarrow> currentColorIndex t < 8)"
proof -
  have a: "fst (getNextCardColor s) = Some (cardColors ! currentColorIndex s)"
    using assms by (simp add: getNextCardColor_def nth_opt_def cardColors_def Let_def)
  have b: "advance_color s = s\<lparr>currentColorIndex := (currentColorIndex s + 1) mod 8\<rparr>"
    by (simp add: advance_color_def getNextCardColor_def cardColors_def Let_def)
  have c: "fst (getNextCardColor (advance_color s)) =
             Some (cardColors ! ((currentColorIndex s + 1) mod 8))"
    by (simp add: b) (simp add: getNextCardColor_def nth_opt_def cardColors_def Let_def)
  have d: "(advance_color ^^ 8) s = s"
    using assms by (simp add: advance_color_iter [OF assms])
  have e: "currentColorIndex ((advance_color ^^ k) s) \<noteq> currentColorIndex s"
    if "0 < k" "k < 8" for k
  proof -
    have "(currentColorIndex s + k) mod 8 \<noteq> currentColorIndex s"
      using that assms by presburger
    then show ?thesis by (simp add: advance_color_iter [OF assms])
  qed
  have f: "distinct cardColors \<and> length cardColors = 8"
    by (simp add: cardColors_def)
  from a b c d e f reachable_color_index show ?thesis by blast
qed

theorem color_cycle_witness:
  "currentColorIndex playing < 8 \<and>
   fst (getNextCardColor playing) = Some ''card-color-1'' \<and>
   fst (getNextCardColor (advance_color playing)) = Some ''card-color-2'' \<and>
   (advance_color ^^ 8) playing = playing"
proof -
  have idx: "currentColorIndex playing = 0" by (simp add: playing_eq)
  then have lt: "currentColorIndex playing < 8" by simp
  from color_cycle [OF lt]
  have "fst (getNextCardColor playing) = Some (cardColors ! currentColorIndex playing)"
    and "fst (getNextCardColor (advance_color playing)) =
           Some (cardColors ! ((currentColorIndex playing + 1) mod 8))"
    and "(advance_color ^^ 8) playing = playing"
    by blast+
  with lt show ?thesis
    by (simp add: idx cardColors_def)
qed

subsection \<open>Startup\<close>

text \<open>
  C8. When the page is opened with no \<^verbatim>\<open>session_id\<close> in the query string and no
  \<^verbatim>\<open>spotify_session\<close> entry in local storage, the constructor leaves the connect screen
  active (and sends nothing). When the query string carries a \<^verbatim>\<open>session_id\<close> (such as
  \<^verbatim>\<open>abc123\<close>), the token is stored under \<^verbatim>\<open>spotify_session\<close>, the playlist screen is
  active, and the playlists have been requested.
\<close>

theorem startup_screen:
  "(map_of query ''session_id'' = None \<and> map_of stored ''spotify_session'' = None \<longrightarrow>
      currentScreen (new_SongamizerApp query stored) = Connect \<and>
      activeScreen (new_SongamizerApp query stored) = Some Connect \<and>
      calls (new_SongamizerApp query stored) = [] \<and>
      localStorage (new_SongamizerApp query stored) = stored) \<and>
   (map_of query ''session_id'' = Some token \<and> token \<noteq> [] \<longrightarrow>
      getItem ''spotify_session'' (new_SongamizerApp query stored) = Some token \<and>
      currentScreen (new_SongamizerApp query stored) = Playlist \<and>
      activeScreen (new_SongamizerApp query stored) = Some Playlist \<and>
      calls (new_SongamizerApp query stored) = [Fetch GetPlaylists])"
  by (simp add: new_SongamizerApp_def init_def checkAuthStatus_def loadPlaylists_call_def
        prim_defs Let_def)

theorem startup_screen_witness:
  "map_of ([]::(string \<times> string) list) ''session_id'' = None \<and>
   map_of ([]::(string \<times> string) list) ''spotify_session'' = None \<and>
   currentScreen (new_SongamizerApp [] []) = Connect \<and>
   map_of [(''session_id'', ''abc123'')] ''session_id'' = Some ''abc123'' \<and>
   ''abc123'' \<noteq> [] \<and>
   getItem ''spotify_session'' (new_SongamizerApp [(''session_id'', ''abc123'')] []) =
     Some ''abc123'' \<and>
   currentScreen (new_SongamizerApp [(''session_id'', ''abc123'')] []) = Playlist \<and>
   calls (new_SongamizerApp [(''session_id'', ''abc123'')] []) = [Fetch GetPlaylists]"
  using startup_screen [of "[]" "[]" "''abc123''"]
        startup_screen [of "[(''session_id'', ''abc123'')]" "[]" "''abc123''"]
  by simp

subsection \<open>Reveal\<close>



subsection \<open>Reset keeps the selection\<close>

text \<open>
  C10. \<^verbatim>\<open>resetGame\<close> leaves \<^verbatim>\<open>selectedPlaylist\<close> as it was, whatever the outcome of the
  request, and leaves the rendered list and the start button alone. After a reset that got
  a response the playlist screen is active, and with a playlist selected before the reset,
  \<^verbatim>\<open>startGame\<close> there shows no alert, shows the game screen and requests a track of that
  same playlist.
\<close>

theorem resetGame_keeps_selection:
  "selectedPlaylist (resetGame r s) = selectedPlaylist s \<and>
   playlistItems (resetGame r s) = playlistItems s \<and>
   getProperty ''startPlayingBtn'' ''disabled'' (resetGame r s) =
     getProperty ''startPlayingBtn'' ''disabled'' s \<and>
   currentScreen (resetGame (Resolved resp) s) = Playlist \<and>
   (truthy (selectedPlaylist s) \<and> get_prop (selectedPlaylist s) ''id'' = Some playlistId \<longrightarrow>
      enabled ClickStart (resetGame (Resolved resp) s) \<and>
      currentScreen (startGame (resetGame r s)) = Game \<and>
      alerts (startGame (resetGame r s)) = alerts (resetGame r s) \<and>
      calls (startGame (resetGame r s)) =
        calls (resetGame r s) @ [Fetch (GetPlayTrack playlistId)])"
  by (cases r)
     (simp_all add: resetGame_def resetGame_call_def resetGame_resume_def startGame_def
        playRandomTrack_call_def prim_defs)

theorem resetGame_keeps_selection_witness:
  "truthy (selectedPlaylist playing) \<and>
   get_prop (selectedPlaylist playing) ''id'' = Some (JStr ''p1'') \<and>
   selectedPlaylist (resetGame (Resolved (Response True None)) playing) =
     selectedPlaylist playing \<and>
   currentScreen (resetGame (Resolved (Response True None)) playing) = Playlist \<and>
   currentScreen (startGame (resetGame (Resolved (Response True None)) playing)) = Game \<and>
   calls (startGame (resetGame (Resolved (Response True None)) playing)) =
     calls (resetGame (Resolved (Response True None)) playing) @
       [Fetch (GetPlayTrack (JStr ''p1''))]"
proof -
  have sel: "truthy (selectedPlaylist playing) \<and>
             get_prop (selectedPlaylist playing) ''id'' = Some (JStr ''p1'')"
    by (simp add: playing_eq one_playlist_def)
  with resetGame_keeps_selection
         [of "Resolved (Response True None)" playing "Response True None" "JStr ''p1''"]
  show ?thesis by blast
qed

end
